theory Spec2Isabelle
  imports Main
begin

section \<open>Python values, dictionaries and string formatting\<close>

text \<open>
  The sensor platform of the SyncThru integration
  (\<^verbatim>\<open>homeassistant/components/syncthru/sensor.py\<close>) only moves values that the printer
  client hands over: it looks keys up in dictionaries, compares a value with the empty
  string, tests a value for truth and formats values into strings. The values are
  dynamically typed, so they are modelled by one datatype of Python values.
\<close>

datatype pyval = PyNone | PyBool bool | PyInt int | PyStr string

datatype py_error = KeyError

text \<open>
  A dictionary keeps its insertion order, and \<^verbatim>\<open>for key in d\<close> walks the keys in that
  order: a dictionary is an association list. \<^verbatim>\<open>d.get(k, dflt)\<close> never raises;
  \<^verbatim>\<open>d[k]\<close> raises \<^verbatim>\<open>KeyError\<close> on a missing key.
\<close>

type_synonym ('k, 'v) dict = "('k \<times> 'v) list"

definition keys :: "('k, 'v) dict \<Rightarrow> 'k list" where
  "keys d = map fst d"

definition dict_get :: "('k, 'v) dict \<Rightarrow> 'k \<Rightarrow> 'v \<Rightarrow> 'v" where
  "dict_get d k dflt = (case map_of d k of None \<Rightarrow> dflt | Some v \<Rightarrow> v)"

definition subscript :: "('k, 'v) dict \<Rightarrow> 'k \<Rightarrow> py_error + 'v" where
  "subscript d k = (case map_of d k of None \<Rightarrow> Inl KeyError | Some v \<Rightarrow> Inr v)"

text \<open>
  \<open>dict_get\<close> and \<open>subscript\<close> find a key by equality of the model, which is Python's
  for strings and for the members of an enumeration; they are used for such keys only.
  The keys of the printer's status maps are Python values of any kind, and a Python
  dictionary finds a key by \<^verbatim>\<open>==\<close>: booleans are integers there, so \<^verbatim>\<open>True\<close> and
  \<^verbatim>\<open>1\<close> are one key, as are \<^verbatim>\<open>False\<close> and \<^verbatim>\<open>0\<close>. \<open>py_eq\<close> is that equality, and
  \<open>py_find\<close>, \<open>py_in\<close>, \<open>py_get\<close> and \<open>py_subscript\<close> are lookup, \<^verbatim>\<open>k in d\<close>,
  \<^verbatim>\<open>d.get(k, dflt)\<close> and \<^verbatim>\<open>d[k]\<close> with it.
\<close>

fun py_num :: "pyval \<Rightarrow> int option" where
  "py_num (PyBool b) = Some (if b then 1 else 0)"
| "py_num (PyInt i) = Some i"
| "py_num PyNone = None"
| "py_num (PyStr s) = None"

definition py_eq :: "pyval \<Rightarrow> pyval \<Rightarrow> bool" where
  "py_eq a b =
    (case (py_num a, py_num b) of
       (Some i, Some j) \<Rightarrow> i = j
     | (None, None) \<Rightarrow> a = b
     | _ \<Rightarrow> False)"

fun py_find :: "(pyval, 'v) dict \<Rightarrow> pyval \<Rightarrow> 'v option" where
  "py_find [] k = None"
| "py_find ((k', v) # d) k = (if py_eq k' k then Some v else py_find d k)"

definition py_in :: "pyval \<Rightarrow> (pyval, 'v) dict \<Rightarrow> bool" where
  "py_in k d = (case py_find d k of None \<Rightarrow> False | Some v \<Rightarrow> True)"

definition py_get :: "(pyval, 'v) dict \<Rightarrow> pyval \<Rightarrow> 'v \<Rightarrow> 'v" where
  "py_get d k dflt = (case py_find d k of None \<Rightarrow> dflt | Some v \<Rightarrow> v)"

definition py_subscript :: "(pyval, 'v) dict \<Rightarrow> pyval \<Rightarrow> py_error + 'v" where
  "py_subscript d k = (case py_find d k of None \<Rightarrow> Inl KeyError | Some v \<Rightarrow> Inr v)"

text \<open>The truth value of a Python value, as \<^verbatim>\<open>X if serial else Y\<close> tests it.\<close>

fun truthy :: "pyval \<Rightarrow> bool" where
  "truthy PyNone = False"
| "truthy (PyBool b) = b"
| "truthy (PyInt i) = (i \<noteq> 0)"
| "truthy (PyStr s) = (s \<noteq> [])"

text \<open>
  What \<^verbatim>\<open>f"{x}"\<close> puts into the string: a string as it is, an integer in decimal,
  \<^verbatim>\<open>None\<close>, \<^verbatim>\<open>True\<close> and \<^verbatim>\<open>False\<close> by their names.
\<close>

definition digit_char :: "nat \<Rightarrow> char" where
  "digit_char d = ''0123456789'' ! d"

function str_nat :: "nat \<Rightarrow> string" where
  "str_nat n = (if n < 10 then [digit_char n] else str_nat (n div 10) @ [digit_char (n mod 10)])"
  by pat_completeness auto
termination
  by (relation "measure id") auto

definition str_int :: "int \<Rightarrow> string" where
  "str_int i = (if i < 0 then CHR ''-'' # str_nat (nat (- i)) else str_nat (nat i))"

fun format :: "pyval \<Rightarrow> string" where
  "format PyNone = ''None''"
| "format (PyBool b) = (if b then ''True'' else ''False'')"
| "format (PyInt i) = str_int i"
| "format (PyStr s) = s"

section \<open>The printer client and the host objects\<close>

text \<open>
  \<^verbatim>\<open>SyncthruState\<close> belongs to the printer client. The table \<^verbatim>\<open>SYNCTHRU_STATE_HUMAN\<close>
  names seven members; Python does not stop \<^verbatim>\<open>device_status()\<close> from returning
  anything else, which \<open>UNLISTED\<close> stands for.
\<close>

datatype SyncthruState =
  INVALID | OFFLINE | NORMAL | UNKNOWN | WARNING | TESTING | ERROR | UNLISTED nat

type_synonym entry = "(string, pyval) dict"

text \<open>
  The \<^verbatim>\<open>SyncThru\<close> object at one moment: what each of its methods returns when called.
  The three status methods that take \<^verbatim>\<open>filter_supported\<close> get the argument as an
  option: \<open>Some b\<close> for \<^verbatim>\<open>filter_supported=b\<close> and \<open>None\<close> for a call without
  argument, whose default is the client's matter. \<^verbatim>\<open>output_tray_status\<close> is always
  called without argument.
\<close>

record SyncThru =
  device_status :: SyncthruState
  device_status_details :: pyval
  serial_number :: pyval
  toner_status :: "bool option \<Rightarrow> (pyval, entry) dict"
  drum_status :: "bool option \<Rightarrow> (pyval, entry) dict"
  input_tray_status :: "bool option \<Rightarrow> (pyval, entry) dict"
  output_tray_status :: "(pyval, entry) dict"

text \<open>
  The coordinator holds the \<^verbatim>\<open>SyncThru\<close> object in \<^verbatim>\<open>coordinator.data\<close>; the host keeps
  the coordinators of a domain by entry id in \<^verbatim>\<open>hass.data[DOMAIN]\<close>; a config entry has
  an id and a dictionary of settings.
\<close>

record DataUpdateCoordinator =
  coordinator_data :: SyncThru

record ConfigEntry =
  entry_id :: string
  entry_data :: "(string, string) dict"

record HomeAssistant =
  hass_data :: "(string, (string, DataUpdateCoordinator) dict) dict"

text \<open>
  \<^verbatim>\<open>PERCENTAGE\<close> is imported from \<^verbatim>\<open>homeassistant.const\<close>; the sensors only store it, so
  it is a constant of a type of its own.
\<close>

datatype unit_const = PERCENTAGE

section \<open>The table of state labels\<close>

definition SYNCTHRU_STATE_HUMAN :: "(SyncthruState, string) dict" where
  "SYNCTHRU_STATE_HUMAN =
    [(INVALID, ''invalid''),
     (OFFLINE, ''unreachable''),
     (NORMAL, ''normal''),
     (UNKNOWN, ''unknown''),
     (WARNING, ''warning''),
     (TESTING, ''testing''),
     (ERROR, ''error'')]"

section \<open>The sensor classes\<close>

text \<open>
  The attributes that \<^verbatim>\<open>SyncThruSensor.__init__\<close> sets (\<^verbatim>\<open>_name\<close>, \<^verbatim>\<open>_icon\<close>,
  \<^verbatim>\<open>_unit_of_measurement\<close>, \<^verbatim>\<open>_id_suffix\<close>). \<^verbatim>\<open>self.syncthru\<close> is a reference to the
  one \<^verbatim>\<open>SyncThru\<close> object that the coordinator refreshes in place, so every property
  that reads it takes the state of that object at the time of the read as an argument.
\<close>

record SyncThruSensor =
  sensor_name :: string
  sensor_icon :: string
  sensor_unit_of_measurement :: "unit_const option"
  sensor_id_suffix :: string

definition SyncThruSensor_init :: "string \<Rightarrow> SyncThruSensor" where
  "SyncThruSensor_init name =
    \<lparr>sensor_name = name, sensor_icon = ''mdi:printer'',
     sensor_unit_of_measurement = None, sensor_id_suffix = ''''\<rparr>"

text \<open>
  One constructor per subclass: the inherited attributes, and \<^verbatim>\<open>_color\<close> or
  \<^verbatim>\<open>_number\<close> where the subclass has it.
\<close>

datatype sensor =
  SyncThruMainSensor SyncThruSensor
| SyncThruTonerSensor SyncThruSensor pyval
| SyncThruDrumSensor SyncThruSensor pyval
| SyncThruInputTraySensor SyncThruSensor pyval
| SyncThruOutputTraySensor SyncThruSensor pyval

definition SyncThruMainSensor_init :: "string \<Rightarrow> sensor" where
  "SyncThruMainSensor_init name =
    SyncThruMainSensor ((SyncThruSensor_init name)\<lparr>sensor_id_suffix := ''_main''\<rparr>)"

definition SyncThruTonerSensor_init :: "string \<Rightarrow> pyval \<Rightarrow> sensor" where
  "SyncThruTonerSensor_init name color =
    SyncThruTonerSensor
      ((SyncThruSensor_init name)
        \<lparr>sensor_name := format (PyStr name) @ '' Toner '' @ format color,
         sensor_unit_of_measurement := Some PERCENTAGE,
         sensor_id_suffix := ''_toner_'' @ format color\<rparr>)
      color"

definition SyncThruDrumSensor_init :: "string \<Rightarrow> pyval \<Rightarrow> sensor" where
  "SyncThruDrumSensor_init name color =
    SyncThruDrumSensor
      ((SyncThruSensor_init name)
        \<lparr>sensor_name := format (PyStr name) @ '' Drum '' @ format color,
         sensor_unit_of_measurement := Some PERCENTAGE,
         sensor_id_suffix := ''_drum_'' @ format color\<rparr>)
      color"

definition SyncThruInputTraySensor_init :: "string \<Rightarrow> pyval \<Rightarrow> sensor" where
  "SyncThruInputTraySensor_init name number =
    SyncThruInputTraySensor
      ((SyncThruSensor_init name)
        \<lparr>sensor_name := format (PyStr name) @ '' Tray '' @ format number,
         sensor_id_suffix := ''_tray_'' @ format number\<rparr>)
      number"

definition SyncThruOutputTraySensor_init :: "string \<Rightarrow> pyval \<Rightarrow> sensor" where
  "SyncThruOutputTraySensor_init name number =
    SyncThruOutputTraySensor
      ((SyncThruSensor_init name)
        \<lparr>sensor_name := format (PyStr name) @ '' Output Tray '' @ format number,
         sensor_id_suffix := ''_output_tray_'' @ format number\<rparr>)
      number"

subsection \<open>Setting the platform up\<close>

text \<open>
  Each \<^verbatim>\<open>for key in d: entities.append(C(coordinator, name, key))\<close> is a loop over the
  keys of \<open>d\<close> that appends to the list built so far.
\<close>

fun append_each :: "('k \<Rightarrow> sensor) \<Rightarrow> 'k list \<Rightarrow> sensor list \<Rightarrow> sensor list" where
  "append_each cls [] entities = entities"
| "append_each cls (key # rest) entities = append_each cls rest (entities @ [cls key])"

text \<open>
  \<^verbatim>\<open>async_setup_entry\<close>: the three subscripts can raise \<^verbatim>\<open>KeyError\<close>; otherwise the
  result is the list handed to \<^verbatim>\<open>async_add_entities\<close>. \<^verbatim>\<open>DOMAIN\<close> and \<^verbatim>\<open>CONF_NAME\<close>
  are imported constants and are parameters here.
\<close>

definition async_setup_entry ::
  "string \<Rightarrow> string \<Rightarrow> HomeAssistant \<Rightarrow> ConfigEntry \<Rightarrow> py_error + sensor list" where
  "async_setup_entry DOMAIN CONF_NAME hass config_entry =
    (case subscript (hass_data hass) DOMAIN of
       Inl e \<Rightarrow> Inl e
     | Inr coordinators \<Rightarrow>
    (case subscript coordinators (entry_id config_entry) of
       Inl e \<Rightarrow> Inl e
     | Inr coordinator \<Rightarrow>
    (let printer = coordinator_data coordinator;
         supp_toner = toner_status printer (Some True);
         supp_drum = drum_status printer (Some True);
         supp_tray = input_tray_status printer (Some True);
         supp_output_tray = output_tray_status printer
     in
    (case subscript (entry_data config_entry) CONF_NAME of
       Inl e \<Rightarrow> Inl e
     | Inr name \<Rightarrow>
    (let entities = [SyncThruMainSensor_init name];
         entities = append_each (SyncThruTonerSensor_init name) (keys supp_toner) entities;
         entities = append_each (SyncThruDrumSensor_init name) (keys supp_drum) entities;
         entities = append_each (SyncThruInputTraySensor_init name) (keys supp_tray) entities;
         entities = append_each (SyncThruOutputTraySensor_init name) (keys supp_output_tray) entities
     in Inr entities)))))"

fun base :: "sensor \<Rightarrow> SyncThruSensor" where
  "base (SyncThruMainSensor b) = b"
| "base (SyncThruTonerSensor b color) = b"
| "base (SyncThruDrumSensor b color) = b"
| "base (SyncThruInputTraySensor b number) = b"
| "base (SyncThruOutputTraySensor b number) = b"

subsection \<open>Properties of the base class\<close>

definition unique_id :: "sensor \<Rightarrow> SyncThru \<Rightarrow> string option" where
  "unique_id x syncthru =
    (let serial = serial_number syncthru
     in if truthy serial then Some (format serial @ format (PyStr (sensor_id_suffix (base x))))
        else None)"

definition name :: "sensor \<Rightarrow> string" where
  "name x = sensor_name (base x)"

definition icon :: "sensor \<Rightarrow> string" where
  "icon x = sensor_icon (base x)"

definition native_unit_of_measurement :: "sensor \<Rightarrow> unit_const option" where
  "native_unit_of_measurement x = sensor_unit_of_measurement (base x)"




subsection \<open>Properties of the subclasses\<close>

text \<open>
  \<^verbatim>\<open>native_value\<close>: the main sensor subscripts the table and so can raise; the others
  only use \<^verbatim>\<open>get\<close>, whose missing key gives \<^verbatim>\<open>{}\<close> and then \<^verbatim>\<open>None\<close>.
\<close>

fun native_value :: "sensor \<Rightarrow> SyncThru \<Rightarrow> py_error + pyval" where
  "native_value (SyncThruMainSensor b) syncthru =
    (case subscript SYNCTHRU_STATE_HUMAN (device_status syncthru) of
       Inl e \<Rightarrow> Inl e
     | Inr label \<Rightarrow> Inr (PyStr label))"
| "native_value (SyncThruTonerSensor b color) syncthru =
    Inr (dict_get (py_get (toner_status syncthru None) color []) ''remaining'' PyNone)"
| "native_value (SyncThruDrumSensor b color) syncthru =
    Inr (dict_get (py_get (drum_status syncthru None) color []) ''remaining'' PyNone)"
| "native_value (SyncThruInputTraySensor b number) syncthru =
    (let tray_state = dict_get (py_get (input_tray_status syncthru None) number []) ''newError'' PyNone
     in Inr (if py_eq tray_state (PyStr '''') then PyStr ''Ready'' else tray_state))"
| "native_value (SyncThruOutputTraySensor b number) syncthru =
    (let tray_state = dict_get (py_get (output_tray_status syncthru) number []) ''status'' PyNone
     in Inr (if py_eq tray_state (PyStr '''') then PyStr ''Ready'' else tray_state))"

fun extra_state_attributes :: "sensor \<Rightarrow> SyncThru \<Rightarrow> entry" where
  "extra_state_attributes (SyncThruMainSensor b) syncthru =
    [(''display_text'', device_status_details syncthru)]"
| "extra_state_attributes (SyncThruTonerSensor b color) syncthru =
    py_get (toner_status syncthru None) color []"
| "extra_state_attributes (SyncThruDrumSensor b color) syncthru =
    py_get (drum_status syncthru None) color []"
| "extra_state_attributes (SyncThruInputTraySensor b number) syncthru =
    py_get (input_tray_status syncthru None) number []"
| "extra_state_attributes (SyncThruOutputTraySensor b number) syncthru =
    py_get (output_tray_status syncthru) number []"

text \<open>
  Modelled from the spec: the default of \<^verbatim>\<open>entity_registry_enabled_default\<close> in the
  host's entity base class, which is not part of the file read here (section 6 of the
  spec: the main sensor is disabled by default, all others enabled by default). Only
  \<^verbatim>\<open>SyncThruMainSensor\<close> overrides the property.
\<close>

definition Entity_entity_registry_enabled_default :: bool where
  "Entity_entity_registry_enabled_default = True"

fun entity_registry_enabled_default :: "sensor \<Rightarrow> bool" where
  "entity_registry_enabled_default (SyncThruMainSensor b) = False"
| "entity_registry_enabled_default (SyncThruTonerSensor b color) =
    Entity_entity_registry_enabled_default"
| "entity_registry_enabled_default (SyncThruDrumSensor b color) =
    Entity_entity_registry_enabled_default"
| "entity_registry_enabled_default (SyncThruInputTraySensor b number) =
    Entity_entity_registry_enabled_default"
| "entity_registry_enabled_default (SyncThruOutputTraySensor b number) =
    Entity_entity_registry_enabled_default"

section \<open>Example printers\<close>

text \<open>
  The scenario of section 8 of the specification: one black toner at 42, no drum, input
  tray 1 without error, output tray 0 reporting a jam, serial number SN1.
\<close>

definition scenario_printer :: SyncThru where
  "scenario_printer =
    \<lparr>device_status = NORMAL,
     device_status_details = PyStr ''Sleeping...'',
     serial_number = PyStr ''SN1'',
     toner_status = (\<lambda>filter_supported. [(PyStr ''black'', [(''remaining'', PyInt 42)])]),
     drum_status = (\<lambda>filter_supported. []),
     input_tray_status = (\<lambda>filter_supported. [(PyInt 1, [(''newError'', PyStr '''')])]),
     output_tray_status = [(PyInt 0, [(''status'', PyStr ''jam'')])]\<rparr>"

text \<open>
  A printer whose supported toners, drums and input trays are none (the unfiltered maps
  still list a black toner and tray 1), with two output trays, one of them an empty
  entry; it reports no serial number and an input tray error.
\<close>

definition bare_printer :: SyncThru where
  "bare_printer =
    \<lparr>device_status = WARNING,
     device_status_details = PyStr '''',
     serial_number = PyNone,
     toner_status = (\<lambda>filter_supported.
       if filter_supported = Some True then [] else [(PyStr ''black'', [])]),
     drum_status = (\<lambda>filter_supported. []),
     input_tray_status = (\<lambda>filter_supported.
       if filter_supported = Some True then []
       else [(PyInt 1, [(''newError'', PyStr ''Paper Empty'')])]),
     output_tray_status = [(PyInt 0, []), (PyInt 1, [(''status'', PyStr '''')])]\<rparr>"

definition hass_with :: "SyncThru \<Rightarrow> HomeAssistant" where
  "hass_with printer =
    \<lparr>hass_data = [(''syncthru'', [(''entry1'', \<lparr>coordinator_data = printer\<rparr>)])]\<rparr>"

definition scenario_entry :: ConfigEntry where
  "scenario_entry = \<lparr>entry_id = ''entry1'', entry_data = [(''name'', ''Printer'')]\<rparr>"

text \<open>
  A second host and config entry that lead to a given printer under the same name, next
  to other domains, other entries and other settings.
\<close>

definition other_hass_with :: "SyncThru \<Rightarrow> HomeAssistant" where
  "other_hass_with printer =
    \<lparr>hass_data =
      [(''light'', []),
       (''syncthru'',
         [(''entry0'', \<lparr>coordinator_data = bare_printer\<rparr>),
          (''entry2'', \<lparr>coordinator_data = printer\<rparr>)])]\<rparr>"

definition other_entry :: ConfigEntry where
  "other_entry =
    \<lparr>entry_id = ''entry2'', entry_data = [(''url'', ''http://192.168.0.7''), (''name'', ''Printer'')]\<rparr>"

section \<open>Dictionaries and formatting: basic facts\<close>

lemma append_each_map: "append_each cls ks entities = entities @ map cls ks"
  by (induction ks arbitrary: entities) simp_all

lemma subscript_missing: "k \<notin> set (keys d) \<Longrightarrow> subscript d k = Inl KeyError"
  by (simp add: subscript_def keys_def map_of_eq_None_iff[THEN iffD2])

lemma dict_get_subscript: "subscript d k = Inr v \<Longrightarrow> dict_get d k dflt = v"
  by (simp add: subscript_def dict_get_def split: option.splits)

lemma dict_get_missing: "k \<notin> set (keys d) \<Longrightarrow> dict_get d k dflt = dflt"
  by (simp add: dict_get_def keys_def map_of_eq_None_iff[THEN iffD2])

lemma py_eq_refl: "py_eq k k"
  by (cases k) (simp_all add: py_eq_def)

lemma py_eq_str: "py_eq v (PyStr s) = (v = PyStr s)"
  by (cases v) (simp_all add: py_eq_def)

lemma py_get_subscript: "py_subscript d k = Inr v \<Longrightarrow> py_get d k dflt = v"
  by (simp add: py_subscript_def py_get_def split: option.splits)

lemma py_get_missing: "\<not> py_in k d \<Longrightarrow> py_get d k dflt = dflt"
  by (simp add: py_in_def py_get_def split: option.splits)

lemma str_nat_nonempty: "str_nat n \<noteq> []"
  by (subst str_nat.simps) simp

lemma format_truthy_nonempty: "truthy v \<Longrightarrow> format v \<noteq> []"
  by (cases v) (simp_all add: str_int_def str_nat_nonempty)

lemma str_int_digit: "str_int 0 = ''0''" "str_int 1 = ''1''"
  by (simp_all add: str_int_def digit_char_def)

lemmas init_defs =
  SyncThruSensor_init_def SyncThruMainSensor_init_def SyncThruTonerSensor_init_def
  SyncThruDrumSensor_init_def SyncThruInputTraySensor_init_def SyncThruOutputTraySensor_init_def

lemma label_lookup:
  "subscript SYNCTHRU_STATE_HUMAN INVALID = Inr ''invalid''"
  "subscript SYNCTHRU_STATE_HUMAN OFFLINE = Inr ''unreachable''"
  "subscript SYNCTHRU_STATE_HUMAN NORMAL = Inr ''normal''"
  "subscript SYNCTHRU_STATE_HUMAN UNKNOWN = Inr ''unknown''"
  "subscript SYNCTHRU_STATE_HUMAN WARNING = Inr ''warning''"
  "subscript SYNCTHRU_STATE_HUMAN TESTING = Inr ''testing''"
  "subscript SYNCTHRU_STATE_HUMAN ERROR = Inr ''error''"
  "subscript SYNCTHRU_STATE_HUMAN (UNLISTED k) = Inl KeyError"
  by (simp_all add: subscript_def SYNCTHRU_STATE_HUMAN_def)

lemma label_keys:
  "keys SYNCTHRU_STATE_HUMAN = [INVALID, OFFLINE, NORMAL, UNKNOWN, WARNING, TESTING, ERROR]"
  by (simp add: keys_def SYNCTHRU_STATE_HUMAN_def)

section \<open>Setting up: the list of entities\<close>

text \<open>
  When the three subscripts succeed, the loops of \<^verbatim>\<open>async_setup_entry\<close> amount to one
  concatenation.
\<close>

lemma async_setup_entry_entities:
  assumes "subscript (hass_data hass) DOMAIN = Inr coordinators"
    and "subscript coordinators (entry_id config_entry) = Inr coordinator"
    and "subscript (entry_data config_entry) CONF_NAME = Inr n"
  shows "async_setup_entry DOMAIN CONF_NAME hass config_entry =
    Inr (SyncThruMainSensor_init n
      # map (SyncThruTonerSensor_init n)
          (keys (toner_status (coordinator_data coordinator) (Some True)))
      @ map (SyncThruDrumSensor_init n)
          (keys (drum_status (coordinator_data coordinator) (Some True)))
      @ map (SyncThruInputTraySensor_init n)
          (keys (input_tray_status (coordinator_data coordinator) (Some True)))
      @ map (SyncThruOutputTraySensor_init n)
          (keys (output_tray_status (coordinator_data coordinator))))"
  using assms by (simp add: async_setup_entry_def Let_def append_each_map)

lemma hass_with_lookup:
  "subscript (hass_data (hass_with printer)) ''syncthru''
    = Inr [(''entry1'', \<lparr>coordinator_data = printer\<rparr>)]"
  "subscript [(''entry1'', \<lparr>coordinator_data = printer\<rparr>)] (entry_id scenario_entry)
    = Inr \<lparr>coordinator_data = printer\<rparr>"
  "subscript (entry_data scenario_entry) ''name'' = Inr ''Printer''"
  by (simp_all add: subscript_def hass_with_def scenario_entry_def)

lemma other_hass_with_lookup:
  "subscript (hass_data (other_hass_with printer)) ''syncthru''
    = Inr [(''entry0'', \<lparr>coordinator_data = bare_printer\<rparr>),
           (''entry2'', \<lparr>coordinator_data = printer\<rparr>)]"
  "subscript [(''entry0'', \<lparr>coordinator_data = bare_printer\<rparr>),
              (''entry2'', \<lparr>coordinator_data = printer\<rparr>)] (entry_id other_entry)
    = Inr \<lparr>coordinator_data = printer\<rparr>"
  "subscript (entry_data other_entry) ''name'' = Inr ''Printer''"
  by (simp_all add: subscript_def other_hass_with_def other_entry_def)

text \<open>
  Claim C1. When the lookups of the coordinator and of the name succeed, the list handed
  to the host is: the main sensor first, then one toner sensor per key of
  \<^verbatim>\<open>toner_status(filter_supported=True)\<close>, then one drum sensor per key of
  \<^verbatim>\<open>drum_status(filter_supported=True)\<close>, then one input tray sensor per key of
  \<^verbatim>\<open>input_tray_status(filter_supported=True)\<close>, then one output tray sensor per key of
  \<^verbatim>\<open>output_tray_status()\<close>, which takes no filter; each in the order of the keys, each
  of the class of its map and holding its key, with the name, icon, unit and id suffix
  of that class. So when the three filtered maps are empty, the list is the main sensor
  followed by one output tray sensor per output tray key.
\<close>

theorem catalog_order:
  assumes "subscript (hass_data hass) DOMAIN = Inr coordinators"
    and "subscript coordinators (entry_id config_entry) = Inr coordinator"
    and "subscript (entry_data config_entry) CONF_NAME = Inr n"
  shows "async_setup_entry DOMAIN CONF_NAME hass config_entry =
      Inr ([SyncThruMainSensor
              \<lparr>sensor_name = n, sensor_icon = ''mdi:printer'',
               sensor_unit_of_measurement = None, sensor_id_suffix = ''_main''\<rparr>]
        @ map (\<lambda>color. SyncThruTonerSensor
              \<lparr>sensor_name = n @ '' Toner '' @ format color, sensor_icon = ''mdi:printer'',
               sensor_unit_of_measurement = Some PERCENTAGE,
               sensor_id_suffix = ''_toner_'' @ format color\<rparr> color)
            (map fst (toner_status (coordinator_data coordinator) (Some True)))
        @ map (\<lambda>color. SyncThruDrumSensor
              \<lparr>sensor_name = n @ '' Drum '' @ format color, sensor_icon = ''mdi:printer'',
               sensor_unit_of_measurement = Some PERCENTAGE,
               sensor_id_suffix = ''_drum_'' @ format color\<rparr> color)
            (map fst (drum_status (coordinator_data coordinator) (Some True)))
        @ map (\<lambda>number. SyncThruInputTraySensor
              \<lparr>sensor_name = n @ '' Tray '' @ format number, sensor_icon = ''mdi:printer'',
               sensor_unit_of_measurement = None,
               sensor_id_suffix = ''_tray_'' @ format number\<rparr> number)
            (map fst (input_tray_status (coordinator_data coordinator) (Some True)))
        @ map (\<lambda>number. SyncThruOutputTraySensor
              \<lparr>sensor_name = n @ '' Output Tray '' @ format number, sensor_icon = ''mdi:printer'',
               sensor_unit_of_measurement = None,
               sensor_id_suffix = ''_output_tray_'' @ format number\<rparr> number)
            (map fst (output_tray_status (coordinator_data coordinator))))
    \<and> (toner_status (coordinator_data coordinator) (Some True) = []
        \<and> drum_status (coordinator_data coordinator) (Some True) = []
        \<and> input_tray_status (coordinator_data coordinator) (Some True) = []
      \<longrightarrow> async_setup_entry DOMAIN CONF_NAME hass config_entry =
          Inr (SyncThruMainSensor
                \<lparr>sensor_name = n, sensor_icon = ''mdi:printer'',
                 sensor_unit_of_measurement = None, sensor_id_suffix = ''_main''\<rparr>
            # map (\<lambda>number. SyncThruOutputTraySensor
                \<lparr>sensor_name = n @ '' Output Tray '' @ format number,
                 sensor_icon = ''mdi:printer'', sensor_unit_of_measurement = None,
                 sensor_id_suffix = ''_output_tray_'' @ format number\<rparr> number)
              (map fst (output_tray_status (coordinator_data coordinator)))))"
proof -
  have inits:
    "SyncThruMainSensor_init n = SyncThruMainSensor
        \<lparr>sensor_name = n, sensor_icon = ''mdi:printer'',
         sensor_unit_of_measurement = None, sensor_id_suffix = ''_main''\<rparr>"
    "SyncThruTonerSensor_init n = (\<lambda>color. SyncThruTonerSensor
        \<lparr>sensor_name = n @ '' Toner '' @ format color, sensor_icon = ''mdi:printer'',
         sensor_unit_of_measurement = Some PERCENTAGE,
         sensor_id_suffix = ''_toner_'' @ format color\<rparr> color)"
    "SyncThruDrumSensor_init n = (\<lambda>color. SyncThruDrumSensor
        \<lparr>sensor_name = n @ '' Drum '' @ format color, sensor_icon = ''mdi:printer'',
         sensor_unit_of_measurement = Some PERCENTAGE,
         sensor_id_suffix = ''_drum_'' @ format color\<rparr> color)"
    "SyncThruInputTraySensor_init n = (\<lambda>number. SyncThruInputTraySensor
        \<lparr>sensor_name = n @ '' Tray '' @ format number, sensor_icon = ''mdi:printer'',
         sensor_unit_of_measurement = None,
         sensor_id_suffix = ''_tray_'' @ format number\<rparr> number)"
    "SyncThruOutputTraySensor_init n = (\<lambda>number. SyncThruOutputTraySensor
        \<lparr>sensor_name = n @ '' Output Tray '' @ format number, sensor_icon = ''mdi:printer'',
         sensor_unit_of_measurement = None,
         sensor_id_suffix = ''_output_tray_'' @ format number\<rparr> number)"
    by (simp_all add: init_defs fun_eq_iff)
  show ?thesis
    using async_setup_entry_entities[OF assms]
    unfolding inits keys_def by simp
qed

theorem catalog_order_witness:
  "async_setup_entry ''syncthru'' ''name'' (hass_with scenario_printer) scenario_entry =
      Inr [SyncThruMainSensor
             \<lparr>sensor_name = ''Printer'', sensor_icon = ''mdi:printer'',
              sensor_unit_of_measurement = None, sensor_id_suffix = ''_main''\<rparr>,
           SyncThruTonerSensor
             \<lparr>sensor_name = ''Printer Toner black'', sensor_icon = ''mdi:printer'',
              sensor_unit_of_measurement = Some PERCENTAGE,
              sensor_id_suffix = ''_toner_black''\<rparr> (PyStr ''black''),
           SyncThruInputTraySensor
             \<lparr>sensor_name = ''Printer Tray 1'', sensor_icon = ''mdi:printer'',
              sensor_unit_of_measurement = None, sensor_id_suffix = ''_tray_1''\<rparr> (PyInt 1),
           SyncThruOutputTraySensor
             \<lparr>sensor_name = ''Printer Output Tray 0'', sensor_icon = ''mdi:printer'',
              sensor_unit_of_measurement = None,
              sensor_id_suffix = ''_output_tray_0''\<rparr> (PyInt 0)]
 \<and> toner_status bare_printer (Some True) = []
 \<and> drum_status bare_printer (Some True) = []
 \<and> input_tray_status bare_printer (Some True) = []
 \<and> async_setup_entry ''syncthru'' ''name'' (hass_with bare_printer) scenario_entry =
      Inr [SyncThruMainSensor
             \<lparr>sensor_name = ''Printer'', sensor_icon = ''mdi:printer'',
              sensor_unit_of_measurement = None, sensor_id_suffix = ''_main''\<rparr>,
           SyncThruOutputTraySensor
             \<lparr>sensor_name = ''Printer Output Tray 0'', sensor_icon = ''mdi:printer'',
              sensor_unit_of_measurement = None,
              sensor_id_suffix = ''_output_tray_0''\<rparr> (PyInt 0),
           SyncThruOutputTraySensor
             \<lparr>sensor_name = ''Printer Output Tray 1'', sensor_icon = ''mdi:printer'',
              sensor_unit_of_measurement = None,
              sensor_id_suffix = ''_output_tray_1''\<rparr> (PyInt 1)]"
proof -
  have full: "async_setup_entry ''syncthru'' ''name'' (hass_with scenario_printer) scenario_entry =
      Inr [SyncThruMainSensor
             \<lparr>sensor_name = ''Printer'', sensor_icon = ''mdi:printer'',
              sensor_unit_of_measurement = None, sensor_id_suffix = ''_main''\<rparr>,
           SyncThruTonerSensor
             \<lparr>sensor_name = ''Printer Toner black'', sensor_icon = ''mdi:printer'',
              sensor_unit_of_measurement = Some PERCENTAGE,
              sensor_id_suffix = ''_toner_black''\<rparr> (PyStr ''black''),
           SyncThruInputTraySensor
             \<lparr>sensor_name = ''Printer Tray 1'', sensor_icon = ''mdi:printer'',
              sensor_unit_of_measurement = None, sensor_id_suffix = ''_tray_1''\<rparr> (PyInt 1),
           SyncThruOutputTraySensor
             \<lparr>sensor_name = ''Printer Output Tray 0'', sensor_icon = ''mdi:printer'',
              sensor_unit_of_measurement = None,
              sensor_id_suffix = ''_output_tray_0''\<rparr> (PyInt 0)]"
    using catalog_order[OF hass_with_lookup, of scenario_printer, THEN conjunct1]
    by (simp add: scenario_printer_def str_int_digit)
  have empty: "toner_status bare_printer (Some True) = []"
    "drum_status bare_printer (Some True) = []"
    "input_tray_status bare_printer (Some True) = []"
    by (simp_all add: bare_printer_def)
  have out: "map fst (output_tray_status bare_printer) = [PyInt 0, PyInt 1]"
    by (simp add: bare_printer_def)
  have bare: "async_setup_entry ''syncthru'' ''name'' (hass_with bare_printer) scenario_entry =
      Inr [SyncThruMainSensor
             \<lparr>sensor_name = ''Printer'', sensor_icon = ''mdi:printer'',
              sensor_unit_of_measurement = None, sensor_id_suffix = ''_main''\<rparr>,
           SyncThruOutputTraySensor
             \<lparr>sensor_name = ''Printer Output Tray 0'', sensor_icon = ''mdi:printer'',
              sensor_unit_of_measurement = None,
              sensor_id_suffix = ''_output_tray_0''\<rparr> (PyInt 0),
           SyncThruOutputTraySensor
             \<lparr>sensor_name = ''Printer Output Tray 1'', sensor_icon = ''mdi:printer'',
              sensor_unit_of_measurement = None,
              sensor_id_suffix = ''_output_tray_1''\<rparr> (PyInt 1)]"
    using catalog_order[OF hass_with_lookup, of bare_printer, THEN conjunct2] empty
    by (simp add: out str_int_digit)
  from full empty bare show ?thesis by simp
qed

section \<open>The state labels and the main sensor\<close>

text \<open>
  Claim C2. The table has exactly the seven keys INVALID, OFFLINE, NORMAL, UNKNOWN, WARNING,
  TESTING and ERROR, with the labels "invalid", "unreachable", "normal", "unknown",
  "warning", "testing" and "error"; and for each of the seven codes the value of the main
  sensor is that label.
\<close>

theorem state_labels:
  "keys SYNCTHRU_STATE_HUMAN = [INVALID, OFFLINE, NORMAL, UNKNOWN, WARNING, TESTING, ERROR]
 \<and> subscript SYNCTHRU_STATE_HUMAN INVALID = Inr ''invalid''
 \<and> subscript SYNCTHRU_STATE_HUMAN OFFLINE = Inr ''unreachable''
 \<and> subscript SYNCTHRU_STATE_HUMAN NORMAL = Inr ''normal''
 \<and> subscript SYNCTHRU_STATE_HUMAN UNKNOWN = Inr ''unknown''
 \<and> subscript SYNCTHRU_STATE_HUMAN WARNING = Inr ''warning''
 \<and> subscript SYNCTHRU_STATE_HUMAN TESTING = Inr ''testing''
 \<and> subscript SYNCTHRU_STATE_HUMAN ERROR = Inr ''error''
 \<and> native_value (SyncThruMainSensor b) (syncthru\<lparr>device_status := INVALID\<rparr>)
      = Inr (PyStr ''invalid'')
 \<and> native_value (SyncThruMainSensor b) (syncthru\<lparr>device_status := OFFLINE\<rparr>)
      = Inr (PyStr ''unreachable'')
 \<and> native_value (SyncThruMainSensor b) (syncthru\<lparr>device_status := NORMAL\<rparr>)
      = Inr (PyStr ''normal'')
 \<and> native_value (SyncThruMainSensor b) (syncthru\<lparr>device_status := UNKNOWN\<rparr>)
      = Inr (PyStr ''unknown'')
 \<and> native_value (SyncThruMainSensor b) (syncthru\<lparr>device_status := WARNING\<rparr>)
      = Inr (PyStr ''warning'')
 \<and> native_value (SyncThruMainSensor b) (syncthru\<lparr>device_status := TESTING\<rparr>)
      = Inr (PyStr ''testing'')
 \<and> native_value (SyncThruMainSensor b) (syncthru\<lparr>device_status := ERROR\<rparr>)
      = Inr (PyStr ''error'')"
  by (simp add: label_lookup label_keys)

theorem state_labels_witness:
  "native_value (SyncThruMainSensor_init ''Printer'') scenario_printer = Inr (PyStr ''normal'')
 \<and> native_value (SyncThruMainSensor_init ''Printer'') bare_printer = Inr (PyStr ''warning'')"
proof -
  have n: "scenario_printer\<lparr>device_status := NORMAL\<rparr> = scenario_printer"
    by (simp add: scenario_printer_def)
  have w: "bare_printer\<lparr>device_status := WARNING\<rparr> = bare_printer"
    by (simp add: bare_printer_def)
  from state_labels[of "(SyncThruSensor_init ''Printer'')\<lparr>sensor_id_suffix := ''_main''\<rparr>"
      scenario_printer]
    state_labels[of "(SyncThruSensor_init ''Printer'')\<lparr>sensor_id_suffix := ''_main''\<rparr>"
      bare_printer]
  show ?thesis
    unfolding SyncThruMainSensor_init_def n w by blast
qed

text \<open>
  Claim C6. The value of the main sensor is the label that the table gives for the
  status code of the printer; its attributes are exactly \<^verbatim>\<open>display_text\<close> with the
  status details of the printer; it is disabled by default, and every sensor of another
  class is enabled by default.
\<close>

theorem main_sensor:
  "(subscript SYNCTHRU_STATE_HUMAN (device_status syncthru) = Inr label
      \<longrightarrow> native_value (SyncThruMainSensor b) syncthru = Inr (PyStr label))
 \<and> extra_state_attributes (SyncThruMainSensor b) syncthru
      = [(''display_text'', device_status_details syncthru)]
 \<and> entity_registry_enabled_default (SyncThruMainSensor b) = False
 \<and> ((\<forall>b'. x \<noteq> SyncThruMainSensor b') \<longrightarrow> entity_registry_enabled_default x = True)"
  by (cases x) (simp_all add: Entity_entity_registry_enabled_default_def)

theorem main_sensor_witness:
  "native_value (SyncThruMainSensor_init ''Printer'') scenario_printer = Inr (PyStr ''normal'')
 \<and> extra_state_attributes (SyncThruMainSensor_init ''Printer'') scenario_printer
      = [(''display_text'', PyStr ''Sleeping...'')]
 \<and> entity_registry_enabled_default (SyncThruMainSensor_init ''Printer'') = False
 \<and> entity_registry_enabled_default (SyncThruTonerSensor_init ''Printer'' (PyStr ''black'')) = True"
proof -
  have l: "subscript SYNCTHRU_STATE_HUMAN (device_status scenario_printer) = Inr ''normal''"
    by (simp add: scenario_printer_def label_lookup)
  have d: "device_status_details scenario_printer = PyStr ''Sleeping...''"
    by (simp add: scenario_printer_def)
  have t: "\<forall>b'. SyncThruTonerSensor_init ''Printer'' (PyStr ''black'') \<noteq> SyncThruMainSensor b'"
    by (simp add: SyncThruTonerSensor_init_def)
  from main_sensor[of scenario_printer "''normal''"
      "(SyncThruSensor_init ''Printer'')\<lparr>sensor_id_suffix := ''_main''\<rparr>"
      "SyncThruTonerSensor_init ''Printer'' (PyStr ''black'')"] l d t
  show ?thesis
    unfolding SyncThruMainSensor_init_def by simp
qed

text \<open>
  Claim C7. The value of the main sensor fails with \<^verbatim>\<open>KeyError\<close> exactly when the
  status code is none of the seven codes of the table; so it fails for every unlisted
  code, and never when the printer client supplies one of the seven.
\<close>

theorem unlisted_status_code:
  "(native_value (SyncThruMainSensor b) syncthru = Inl KeyError)
     = (device_status syncthru \<notin> {INVALID, OFFLINE, NORMAL, UNKNOWN, WARNING, TESTING, ERROR})
 \<and> native_value (SyncThruMainSensor b) (syncthru\<lparr>device_status := UNLISTED k\<rparr>) = Inl KeyError"
  by (cases "device_status syncthru") (simp_all add: label_lookup)

theorem unlisted_status_code_witness:
  "native_value (SyncThruMainSensor_init ''Printer'') (scenario_printer\<lparr>device_status := UNLISTED 7\<rparr>)
     = Inl KeyError
 \<and> native_value (SyncThruMainSensor_init ''Printer'') scenario_printer \<noteq> Inl KeyError"
proof -
  have s: "device_status scenario_printer = NORMAL"
    by (simp add: scenario_printer_def)
  from unlisted_status_code[of "(SyncThruSensor_init ''Printer'')\<lparr>sensor_id_suffix := ''_main''\<rparr>"
      scenario_printer 7] s
  show ?thesis
    unfolding SyncThruMainSensor_init_def by simp
qed

section \<open>Trays, toners and drums\<close>

text \<open>
  Claim C3. For an input tray sensor whose tray number has an entry in
  \<^verbatim>\<open>input_tray_status()\<close>: when the entry's \<^verbatim>\<open>newError\<close> is the empty string the
  value is "Ready", and when it is any other value the value is that one, unchanged. The
  same holds for an output tray sensor and the \<^verbatim>\<open>status\<close> of its entry in
  \<^verbatim>\<open>output_tray_status()\<close>.
\<close>

theorem tray_ready_substitution:
  "(py_subscript (input_tray_status syncthru None) number = Inr e \<and>
    subscript e ''newError'' = Inr (PyStr '''')
      \<longrightarrow> native_value (SyncThruInputTraySensor b number) syncthru = Inr (PyStr ''Ready''))
 \<and> (py_subscript (input_tray_status syncthru None) number = Inr e \<and>
    subscript e ''newError'' = Inr v \<and> v \<noteq> PyStr ''''
      \<longrightarrow> native_value (SyncThruInputTraySensor b number) syncthru = Inr v)
 \<and> (py_subscript (output_tray_status syncthru) number = Inr e \<and>
    subscript e ''status'' = Inr (PyStr '''')
      \<longrightarrow> native_value (SyncThruOutputTraySensor b number) syncthru = Inr (PyStr ''Ready''))
 \<and> (py_subscript (output_tray_status syncthru) number = Inr e \<and>
    subscript e ''status'' = Inr v \<and> v \<noteq> PyStr ''''
      \<longrightarrow> native_value (SyncThruOutputTraySensor b number) syncthru = Inr v)"
  by (simp add: py_get_subscript dict_get_subscript py_eq_str Let_def)

theorem tray_ready_substitution_witness:
  "native_value (SyncThruInputTraySensor_init ''Printer'' (PyInt 1)) scenario_printer
      = Inr (PyStr ''Ready'')
 \<and> native_value (SyncThruInputTraySensor_init ''Printer'' (PyInt 1)) bare_printer
      = Inr (PyStr ''Paper Empty'')
 \<and> native_value (SyncThruOutputTraySensor_init ''Printer'' (PyInt 1)) bare_printer
      = Inr (PyStr ''Ready'')
 \<and> native_value (SyncThruOutputTraySensor_init ''Printer'' (PyInt 0)) scenario_printer
      = Inr (PyStr ''jam'')"
proof -
  have i1: "py_subscript (input_tray_status scenario_printer None) (PyInt 1)
        = Inr [(''newError'', PyStr '''')]
      \<and> subscript [(''newError'', PyStr '''')] ''newError'' = Inr (PyStr '''')"
    by (simp add: py_subscript_def py_eq_def subscript_def scenario_printer_def)
  have i2: "py_subscript (input_tray_status bare_printer None) (PyInt 1)
        = Inr [(''newError'', PyStr ''Paper Empty'')]
      \<and> subscript [(''newError'', PyStr ''Paper Empty'')] ''newError'' = Inr (PyStr ''Paper Empty'')
      \<and> PyStr ''Paper Empty'' \<noteq> PyStr ''''"
    by (simp add: py_subscript_def py_eq_def subscript_def bare_printer_def)
  have o1: "py_subscript (output_tray_status bare_printer) (PyInt 1)
        = Inr [(''status'', PyStr '''')]
      \<and> subscript [(''status'', PyStr '''')] ''status'' = Inr (PyStr '''')"
    by (simp add: py_subscript_def py_eq_def subscript_def bare_printer_def)
  have o2: "py_subscript (output_tray_status scenario_printer) (PyInt 0)
        = Inr [(''status'', PyStr ''jam'')]
      \<and> subscript [(''status'', PyStr ''jam'')] ''status'' = Inr (PyStr ''jam'')
      \<and> PyStr ''jam'' \<noteq> PyStr ''''"
    by (simp add: py_subscript_def py_eq_def subscript_def scenario_printer_def)
  have a: "native_value (SyncThruInputTraySensor_init ''Printer'' (PyInt 1)) scenario_printer
      = Inr (PyStr ''Ready'')"
    unfolding SyncThruInputTraySensor_init_def
    using tray_ready_substitution[of scenario_printer "PyInt 1" "[(''newError'', PyStr '''')]"] i1
    by blast
  have b: "native_value (SyncThruInputTraySensor_init ''Printer'' (PyInt 1)) bare_printer
      = Inr (PyStr ''Paper Empty'')"
    unfolding SyncThruInputTraySensor_init_def
    using tray_ready_substitution[where syncthru = bare_printer and number = "PyInt 1"
        and e = "[(''newError'', PyStr ''Paper Empty'')]" and v = "PyStr ''Paper Empty''"] i2
    by blast
  have c: "native_value (SyncThruOutputTraySensor_init ''Printer'' (PyInt 1)) bare_printer
      = Inr (PyStr ''Ready'')"
    unfolding SyncThruOutputTraySensor_init_def
    using tray_ready_substitution[of bare_printer "PyInt 1" "[(''status'', PyStr '''')]"] o1
    by blast
  have d: "native_value (SyncThruOutputTraySensor_init ''Printer'' (PyInt 0)) scenario_printer
      = Inr (PyStr ''jam'')"
    unfolding SyncThruOutputTraySensor_init_def
    using tray_ready_substitution[where syncthru = scenario_printer and number = "PyInt 0"
        and e = "[(''status'', PyStr ''jam'')]" and v = "PyStr ''jam''"] o2
    by blast
  from a b c d show ?thesis by simp
qed

text \<open>
  Claim C5. For a toner sensor whose colour is not a key of \<^verbatim>\<open>toner_status()\<close> (by
  Python's equality of keys), the value is \<^verbatim>\<open>None\<close>, returned and not raised, and the
  attributes are the empty dictionary; when the colour has an entry, the value is what
  the entry holds under \<^verbatim>\<open>remaining\<close> (\<^verbatim>\<open>None\<close> if it holds nothing there) and the
  attributes are the whole entry. The same holds for a drum sensor and
  \<^verbatim>\<open>drum_status()\<close>.
\<close>

theorem toner_drum_missing_key:
  "(\<not> py_in color (toner_status syncthru None)
      \<longrightarrow> native_value (SyncThruTonerSensor b color) syncthru = Inr PyNone
        \<and> extra_state_attributes (SyncThruTonerSensor b color) syncthru = [])
 \<and> (py_subscript (toner_status syncthru None) color = Inr e
      \<longrightarrow> native_value (SyncThruTonerSensor b color) syncthru
          = Inr (dict_get e ''remaining'' PyNone)
        \<and> (subscript e ''remaining'' = Inr v
            \<longrightarrow> native_value (SyncThruTonerSensor b color) syncthru = Inr v)
        \<and> extra_state_attributes (SyncThruTonerSensor b color) syncthru = e)
 \<and> (\<not> py_in color (drum_status syncthru None)
      \<longrightarrow> native_value (SyncThruDrumSensor b color) syncthru = Inr PyNone
        \<and> extra_state_attributes (SyncThruDrumSensor b color) syncthru = [])
 \<and> (py_subscript (drum_status syncthru None) color = Inr e
      \<longrightarrow> native_value (SyncThruDrumSensor b color) syncthru
          = Inr (dict_get e ''remaining'' PyNone)
        \<and> (subscript e ''remaining'' = Inr v
            \<longrightarrow> native_value (SyncThruDrumSensor b color) syncthru = Inr v)
        \<and> extra_state_attributes (SyncThruDrumSensor b color) syncthru = e)"
  by (simp add: py_get_subscript py_get_missing dict_get_subscript) (simp add: dict_get_def)

theorem toner_drum_missing_key_witness:
  "native_value (SyncThruTonerSensor_init ''Printer'' (PyStr ''cyan'')) scenario_printer = Inr PyNone
 \<and> extra_state_attributes (SyncThruTonerSensor_init ''Printer'' (PyStr ''cyan'')) scenario_printer = []
 \<and> native_value (SyncThruTonerSensor_init ''Printer'' (PyStr ''black'')) scenario_printer
      = Inr (PyInt 42)
 \<and> extra_state_attributes (SyncThruTonerSensor_init ''Printer'' (PyStr ''black'')) scenario_printer
      = [(''remaining'', PyInt 42)]
 \<and> native_value (SyncThruDrumSensor_init ''Printer'' (PyStr ''black'')) scenario_printer = Inr PyNone
 \<and> extra_state_attributes (SyncThruDrumSensor_init ''Printer'' (PyStr ''black'')) scenario_printer = []
 \<and> native_value (SyncThruDrumSensor_init ''Printer'' (PyStr ''black''))
      (scenario_printer\<lparr>drum_status := toner_status scenario_printer\<rparr>) = Inr (PyInt 42)
 \<and> extra_state_attributes (SyncThruDrumSensor_init ''Printer'' (PyStr ''black''))
      (scenario_printer\<lparr>drum_status := toner_status scenario_printer\<rparr>)
      = [(''remaining'', PyInt 42)]
 \<and> native_value (SyncThruTonerSensor_init ''Printer'' (PyBool True))
      (scenario_printer\<lparr>toner_status := (\<lambda>filter_supported. [(PyInt 1, [(''remaining'', PyInt 7)])])\<rparr>)
      = Inr (PyInt 7)"
proof -
  have missing: "\<not> py_in (PyStr ''cyan'') (toner_status scenario_printer None)"
    "\<not> py_in (PyStr ''black'') (drum_status scenario_printer None)"
    by (simp_all add: py_in_def py_eq_def scenario_printer_def)
  have present: "py_subscript (toner_status scenario_printer None) (PyStr ''black'')
      = Inr [(''remaining'', PyInt 42)]"
    "py_subscript (drum_status (scenario_printer\<lparr>drum_status := toner_status scenario_printer\<rparr>) None)
      (PyStr ''black'') = Inr [(''remaining'', PyInt 42)]"
    "subscript [(''remaining'', PyInt 42)] ''remaining'' = Inr (PyInt 42)"
    by (simp_all add: py_subscript_def py_eq_def subscript_def scenario_printer_def)
  have bool_key:
    "py_subscript (toner_status (scenario_printer\<lparr>toner_status :=
        (\<lambda>filter_supported. [(PyInt 1, [(''remaining'', PyInt 7)])])\<rparr>) None) (PyBool True)
      = Inr [(''remaining'', PyInt 7)]"
    "subscript [(''remaining'', PyInt 7)] ''remaining'' = Inr (PyInt 7)"
    by (simp_all add: py_subscript_def py_eq_def subscript_def)
  have a: "native_value (SyncThruTonerSensor_init ''Printer'' (PyStr ''cyan'')) scenario_printer
        = Inr PyNone
      \<and> extra_state_attributes (SyncThruTonerSensor_init ''Printer'' (PyStr ''cyan''))
          scenario_printer = []"
    unfolding SyncThruTonerSensor_init_def
    using toner_drum_missing_key[where color = "PyStr ''cyan''" and syncthru = scenario_printer]
      missing by blast
  have b: "native_value (SyncThruTonerSensor_init ''Printer'' (PyStr ''black'')) scenario_printer
        = Inr (PyInt 42)
      \<and> extra_state_attributes (SyncThruTonerSensor_init ''Printer'' (PyStr ''black''))
          scenario_printer = [(''remaining'', PyInt 42)]"
    unfolding SyncThruTonerSensor_init_def
    using toner_drum_missing_key[where color = "PyStr ''black''" and syncthru = scenario_printer
        and e = "[(''remaining'', PyInt 42)]" and v = "PyInt 42"]
      present by blast
  have c: "native_value (SyncThruDrumSensor_init ''Printer'' (PyStr ''black'')) scenario_printer
        = Inr PyNone
      \<and> extra_state_attributes (SyncThruDrumSensor_init ''Printer'' (PyStr ''black''))
          scenario_printer = []"
    unfolding SyncThruDrumSensor_init_def
    using toner_drum_missing_key[where color = "PyStr ''black''" and syncthru = scenario_printer]
      missing by blast
  have d: "native_value (SyncThruDrumSensor_init ''Printer'' (PyStr ''black''))
          (scenario_printer\<lparr>drum_status := toner_status scenario_printer\<rparr>) = Inr (PyInt 42)
      \<and> extra_state_attributes (SyncThruDrumSensor_init ''Printer'' (PyStr ''black''))
          (scenario_printer\<lparr>drum_status := toner_status scenario_printer\<rparr>)
          = [(''remaining'', PyInt 42)]"
    unfolding SyncThruDrumSensor_init_def
    using toner_drum_missing_key[where color = "PyStr ''black''"
        and syncthru = "scenario_printer\<lparr>drum_status := toner_status scenario_printer\<rparr>"
        and e = "[(''remaining'', PyInt 42)]" and v = "PyInt 42"]
      present by blast
  have t: "native_value (SyncThruTonerSensor_init ''Printer'' (PyBool True))
      (scenario_printer\<lparr>toner_status := (\<lambda>filter_supported. [(PyInt 1, [(''remaining'', PyInt 7)])])\<rparr>)
      = Inr (PyInt 7)"
    unfolding SyncThruTonerSensor_init_def
    using toner_drum_missing_key[where color = "PyBool True"
        and syncthru = "scenario_printer\<lparr>toner_status :=
          (\<lambda>filter_supported. [(PyInt 1, [(''remaining'', PyInt 7)])])\<rparr>"
        and e = "[(''remaining'', PyInt 7)]" and v = "PyInt 7"]
      bool_key by blast
  from a b c d t show ?thesis by simp
qed

section \<open>Identity: unique identifier and name\<close>







text \<open>
  Claim C10. The unique identifier is also absent when the serial number is the empty
  string, and more generally whenever the serial number is falsy; and it is never the
  bare id suffix of the sensor.
\<close>

theorem falsy_serial_no_unique_id:
  "(serial_number syncthru = PyStr '''' \<longrightarrow> unique_id x syncthru = None)
 \<and> (\<not> truthy (serial_number syncthru) \<longrightarrow> unique_id x syncthru = None)
 \<and> unique_id x syncthru \<noteq> Some (sensor_id_suffix (base x))"
  by (auto simp: unique_id_def Let_def dest: format_truthy_nonempty)

theorem falsy_serial_no_unique_id_witness:
  "unique_id (SyncThruMainSensor_init ''Printer'') (scenario_printer\<lparr>serial_number := PyStr ''''\<rparr>)
      = None
 \<and> unique_id (SyncThruMainSensor_init ''Printer'') (scenario_printer\<lparr>serial_number := PyInt 0\<rparr>)
      = None
 \<and> unique_id (SyncThruMainSensor_init ''Printer'') scenario_printer \<noteq> Some ''_main''"
proof -
  have a: "unique_id (SyncThruMainSensor_init ''Printer'')
      (scenario_printer\<lparr>serial_number := PyStr ''''\<rparr>) = None"
    using falsy_serial_no_unique_id[where syncthru = "scenario_printer\<lparr>serial_number := PyStr ''''\<rparr>"
        and x = "SyncThruMainSensor_init ''Printer''"]
    by simp
  have b: "unique_id (SyncThruMainSensor_init ''Printer'')
      (scenario_printer\<lparr>serial_number := PyInt 0\<rparr>) = None"
    using falsy_serial_no_unique_id[where syncthru = "scenario_printer\<lparr>serial_number := PyInt 0\<rparr>"
        and x = "SyncThruMainSensor_init ''Printer''"]
    by simp
  have c: "unique_id (SyncThruMainSensor_init ''Printer'') scenario_printer \<noteq> Some ''_main''"
    using falsy_serial_no_unique_id[where syncthru = scenario_printer
        and x = "SyncThruMainSensor_init ''Printer''"]
    by (simp add: init_defs)
  from a b c show ?thesis by simp
qed

text \<open>
  Claim C9. The name of the main sensor is the base name as it is; the name of a toner
  sensor is the base name, " Toner " and the colour; of a drum sensor the base name,
  " Drum " and the colour; of an input tray sensor the base name, " Tray " and the number
  in decimal; of an output tray sensor the base name, " Output Tray " and the number in
  decimal.
\<close>

theorem display_names:
  "name (SyncThruMainSensor_init n) = n
 \<and> name (SyncThruTonerSensor_init n (PyStr color)) = n @ '' Toner '' @ color
 \<and> name (SyncThruDrumSensor_init n (PyStr color)) = n @ '' Drum '' @ color
 \<and> name (SyncThruInputTraySensor_init n (PyInt number)) = n @ '' Tray '' @ str_int number
 \<and> name (SyncThruOutputTraySensor_init n (PyInt number))
      = n @ '' Output Tray '' @ str_int number"
  by (simp add: name_def init_defs)

theorem display_names_witness:
  "name (SyncThruMainSensor_init ''Printer'') = ''Printer''
 \<and> name (SyncThruTonerSensor_init ''Printer'' (PyStr ''black'')) = ''Printer Toner black''
 \<and> name (SyncThruDrumSensor_init ''Printer'' (PyStr ''black'')) = ''Printer Drum black''
 \<and> name (SyncThruInputTraySensor_init ''Printer'' (PyInt 1)) = ''Printer Tray 1''
 \<and> name (SyncThruOutputTraySensor_init ''Printer'' (PyInt 1)) = ''Printer Output Tray 1''"
  using display_names[of "''Printer''" "''black''" 1] by (simp add: str_int_digit)

section \<open>Setting up twice\<close>

text \<open>
  Claim C8. Two runs of the setup that reach the same printer state and the same base
  name, through whatever host and config entry, both hand over a list of entities, and
  the two lists are equal: the same sensors (class, colour or number, name, id suffix,
  unit, icon) in the same order.
\<close>

theorem catalog_deterministic:
  assumes "subscript (hass_data hass1) DOMAIN = Inr coordinators1"
    and "subscript coordinators1 (entry_id config_entry1) = Inr coordinator1"
    and "subscript (entry_data config_entry1) CONF_NAME = Inr n"
    and "subscript (hass_data hass2) DOMAIN = Inr coordinators2"
    and "subscript coordinators2 (entry_id config_entry2) = Inr coordinator2"
    and "subscript (entry_data config_entry2) CONF_NAME = Inr n"
    and "coordinator_data coordinator1 = coordinator_data coordinator2"
  shows "\<exists>entities.
      async_setup_entry DOMAIN CONF_NAME hass1 config_entry1 = Inr entities
    \<and> async_setup_entry DOMAIN CONF_NAME hass2 config_entry2 = Inr entities"
  using async_setup_entry_entities[OF assms(1-3)] async_setup_entry_entities[OF assms(4-6)]
    assms(7)
  by simp

theorem catalog_deterministic_witness:
  "async_setup_entry ''syncthru'' ''name'' (hass_with scenario_printer) scenario_entry
    = async_setup_entry ''syncthru'' ''name'' (other_hass_with scenario_printer) other_entry
 \<and> hass_with scenario_printer \<noteq> other_hass_with scenario_printer
 \<and> scenario_entry \<noteq> other_entry"
proof -
  have "\<exists>entities.
      async_setup_entry ''syncthru'' ''name'' (hass_with scenario_printer) scenario_entry
        = Inr entities
    \<and> async_setup_entry ''syncthru'' ''name'' (other_hass_with scenario_printer) other_entry
        = Inr entities"
    by (rule catalog_deterministic[OF hass_with_lookup other_hass_with_lookup]) simp
  then have same:
    "async_setup_entry ''syncthru'' ''name'' (hass_with scenario_printer) scenario_entry
      = async_setup_entry ''syncthru'' ''name'' (other_hass_with scenario_printer) other_entry"
    by auto
  have different: "hass_with scenario_printer \<noteq> other_hass_with scenario_printer"
    "scenario_entry \<noteq> other_entry"
    by (simp_all add: hass_with_def other_hass_with_def scenario_entry_def other_entry_def)
  from same different show ?thesis by simp
qed

end
